theory Spec2Isabelle
  imports Main
begin

section \<open>Request-time data\<close>

text \<open>
  The file under verification is \<^verbatim>\<open>core/router/api_container.go\<close>: the type
  \<^verbatim>\<open>APIContainer\<close>, a route group (\<^verbatim>\<open>Self\<close>) paired with a dependency container
  (\<^verbatim>\<open>Container\<close>). Both fields are references, so the model keeps the groups and the
  containers in a store and the \<^verbatim>\<open>APIContainer\<close> holds two addresses. The packages
  \<^verbatim>\<open>hero\<close>, \<^verbatim>\<open>macro\<close>, \<^verbatim>\<open>context\<close> and the rest of package \<^verbatim>\<open>router\<close> are
  not part of the file; what the file calls in them is modelled below, each piece
  marked as such.
\<close>

type_synonym addr = nat

text \<open>Go \<^verbatim>\<open>error\<close> values a handler function can return: the sentinel and any other.\<close>

datatype error = ErrStopExecution | Failure string

text \<open>The per-request context: whether the chain was stopped, and what was written.\<close>

record Context =
  Stopped :: bool
  Response :: "string list"

type_synonym ErrorHandler = "Context \<Rightarrow> error \<Rightarrow> Context"

type_synonym ResultHandler = "Context \<Rightarrow> string \<Rightarrow> Context"

text \<open>What a handler function gives back: an optional value and an optional error.\<close>

datatype Output = Output "string option" "error option"

text \<open>
  A handler function (\<^verbatim>\<open>interface{}\<close> in \<^verbatim>\<open>handlersFn ...interface{}\<close>): a name, and
  what a call of it yields for a request once its arguments have been supplied.
\<close>

record HandlerFunction =
  FuncName :: string
  Call :: "Context \<Rightarrow> Output"

section \<open>The dependency container (package hero)\<close>

record Dependency =
  DestType :: string
  Payload :: string

text \<open>
  \<^verbatim>\<open>hero.Container\<close>. The field \<^verbatim>\<open>GetErrorHandler\<close> is the one the source assigns in
  \<^verbatim>\<open>OnError\<close>; its type \<^verbatim>\<open>func(context.Context) hero.ErrorHandler\<close> is given by that
  assignment.
\<close>

record hero_Container =
  Dependencies :: "Dependency list"
  GetErrorHandler :: "Context \<Rightarrow> ErrorHandler"
  resultHandler :: ResultHandler

text \<open>
  A \<^verbatim>\<open>context.Handler\<close> built by the container. A Go closure is represented by what it
  captured.
\<close>

record Handler =
  Fn :: HandlerFunction
  ParamsCount :: nat
  ErrorHandlerOf :: "Context \<Rightarrow> ErrorHandler"
  ResultHandlerOf :: ResultHandler
  AutoNext :: bool

type_synonym Handlers = "Handler list"

text \<open>
  Modelled from the spec: \<^verbatim>\<open>hero.Container.HandlerWithParams\<close> is missing from the
  sources. Spec, data model: an AdaptedHandler is the HandlerFunction, its ResolutionPlan
  (built from the path-parameter count) and a captured snapshot of the owning scope's
  ErrorHandler and ResultHandlerChain at construction time. The handler has no chain
  control of its own (\<open>AutoNext\<close> is off until \<^verbatim>\<open>ExecutionOptions.apply\<close> sets it).
\<close>

definition Container_HandlerWithParams :: "hero_Container \<Rightarrow> HandlerFunction \<Rightarrow> nat \<Rightarrow> Handler" where
  "Container_HandlerWithParams c fn paramsCount =
     \<lparr>Fn = fn, ParamsCount = paramsCount, ErrorHandlerOf = GetErrorHandler c,
      ResultHandlerOf = resultHandler c, AutoNext = False\<rparr>"

text \<open>
  Modelled from the spec: \<^verbatim>\<open>hero.Container.Register\<close> is missing from the sources.
  Spec, data model: the registry maps a type descriptor to a Dependency, keys unique, the
  last registration for a type wins.
\<close>

definition Container_Register :: "hero_Container \<Rightarrow> Dependency \<Rightarrow> hero_Container" where
  "Container_Register c d =
     c\<lparr>Dependencies := filter (\<lambda>e. DestType e \<noteq> DestType d) (Dependencies c) @ [d]\<rparr>"


text \<open>
  Modelled from the spec: cloning a container is missing from the sources. Spec 4.1,
  \<^verbatim>\<open>branch()\<close>: a child registry pre-populated with a shallow copy of all current
  entries. The copy is a value; the caller stores it at an address of its own.
\<close>

definition Container_Clone :: "hero_Container \<Rightarrow> hero_Container" where
  "Container_Clone c =
     \<lparr>Dependencies = Dependencies c, GetErrorHandler = GetErrorHandler c,
      resultHandler = resultHandler c\<rparr>"

section \<open>The route group and the routing table (package router)\<close>

text \<open>
  \<^verbatim>\<open>ExecutionOptions\<close>, of which the source sets the field \<^verbatim>\<open>Force\<close>.
\<close>

record ExecutionOptions =
  Force :: bool

text \<open>
  Modelled from the spec: \<^verbatim>\<open>ExecutionOptions.apply\<close> is missing from the sources.
  Spec 4.3 and the source's comment at the call: with \<^verbatim>\<open>Force\<close>, every handler continues
  to the next handler of the pipeline by itself after it returns, unless the request was
  stopped.
\<close>

definition ExecutionOptions_apply :: "ExecutionOptions \<Rightarrow> Handlers \<Rightarrow> Handlers" where
  "ExecutionOptions_apply opts handlers =
     (if Force opts then map (\<lambda>h. h\<lparr>AutoNext := True\<rparr>) handlers else handlers)"

text \<open>
  A route descriptor (\<^verbatim>\<open>*Route\<close>; a nil pointer is \<open>None\<close>): the method, the scope that
  registered it, the relative path it was registered under, and its handlers.
\<close>

record Route =
  Method :: string
  Scope :: addr
  Path :: string
  RouteHandlers :: Handlers

text \<open>
  The state of one route group (the \<^verbatim>\<open>Party\<close> behind \<^verbatim>\<open>Self\<close>): its path prefix, its
  macros (opaque, of type \<open>'m\<close>), the handlers registered before and after the main
  chain, and the address of its dependency container.
\<close>

record 'm PartyState =
  RelPath :: string
  Macros :: 'm
  Middleware :: Handlers
  DoneHandlers :: Handlers
  DI :: addr

text \<open>
  The whole state: the stores of route groups and containers, each with the next free
  address, the routing table, and the three things the routing collaborator decides and
  the sources do not show: the path-pattern analyzer \<^verbatim>\<open>macro.CountParams\<close>, whether the
  routing table takes a route (given the table so far), and how it expands a path
  argument into the paths of single routes.
\<close>

record 'm world =
  Parties :: "addr \<Rightarrow> 'm PartyState"
  NextParty :: addr
  Containers :: "addr \<Rightarrow> hero_Container"
  NextContainer :: addr
  Routes :: "Route list"
  macro_CountParams :: "string \<Rightarrow> 'm \<Rightarrow> nat"
  RegisterRule :: "Route list \<Rightarrow> Route \<Rightarrow> bool"
  SplitPath :: "string \<Rightarrow> string list"

definition Party_GetRelPath :: "addr \<Rightarrow> 'm world \<Rightarrow> string" where
  "Party_GetRelPath p w = RelPath (Parties w p)"

definition Party_Macros :: "addr \<Rightarrow> 'm world \<Rightarrow> 'm" where
  "Party_Macros p w = Macros (Parties w p)"

text \<open>
  Modelled from the spec: \<^verbatim>\<open>Party.Handle\<close> is missing from the sources. Spec 4.6 and 6:
  a handler-registration primitive keyed by (method, path) that registers the handler list
  against the routing table and returns the created route descriptor, or fails.
\<close>

definition Party_Handle ::
  "addr \<Rightarrow> string \<Rightarrow> string \<Rightarrow> Handlers \<Rightarrow> 'm world \<Rightarrow> Route option \<times> 'm world" where
  "Party_Handle p method relativePath handlers w =
     (let r = \<lparr>Method = method, Scope = p, Path = relativePath, RouteHandlers = handlers\<rparr>
      in if RegisterRule w (Routes w) r then (Some r, w\<lparr>Routes := Routes w @ [r]\<rparr>)
         else (None, w))"

text \<open>
  Modelled from the spec: \<^verbatim>\<open>Party.HandleMany\<close> is missing from the sources. It is the
  same primitive, once for every single-route path the path argument stands for, each
  result reported in the returned slice.
\<close>

fun HandleMany_loop ::
  "addr \<Rightarrow> string \<Rightarrow> string list \<Rightarrow> Handlers \<Rightarrow> Route option list \<Rightarrow> 'm world
    \<Rightarrow> Route option list \<times> 'm world" where
  "HandleMany_loop p method [] handlers routes w = (routes, w)"
| "HandleMany_loop p method (relativePath # paths) handlers routes w =
     (case Party_Handle p method relativePath handlers w of
        (r, w') \<Rightarrow> HandleMany_loop p method paths handlers (routes @ [r]) w')"

definition Party_HandleMany ::
  "addr \<Rightarrow> string \<Rightarrow> string \<Rightarrow> Handlers \<Rightarrow> 'm world \<Rightarrow> Route option list \<times> 'm world" where
  "Party_HandleMany p method relativePath handlers w =
     HandleMany_loop p method (SplitPath w relativePath) handlers [] w"

text \<open>
  Modelled from the spec: \<^verbatim>\<open>Party.Use\<close> and \<^verbatim>\<open>Party.Done\<close> are missing from the
  sources. Spec 6: register middleware-style handlers before and after the main chain.
\<close>

definition Party_Use :: "addr \<Rightarrow> Handlers \<Rightarrow> 'm world \<Rightarrow> 'm world" where
  "Party_Use p handlers w =
     w\<lparr>Parties := (Parties w)(p := (Parties w p)\<lparr>Middleware := Middleware (Parties w p) @ handlers\<rparr>)\<rparr>"

definition Party_Done :: "addr \<Rightarrow> Handlers \<Rightarrow> 'm world \<Rightarrow> 'm world" where
  "Party_Done p handlers w =
     w\<lparr>Parties := (Parties w)(p := (Parties w p)\<lparr>DoneHandlers := DoneHandlers (Parties w p) @ handlers\<rparr>)\<rparr>"

text \<open>
  Modelled from the spec: \<^verbatim>\<open>Party.Party\<close> is missing from the sources. Spec 3 and 6:
  sub-scope creation; the scope's dependency set at that moment is copied into the child.
  The child gets a fresh address, and its container a fresh address holding the copy.
\<close>

definition Party_Party :: "addr \<Rightarrow> string \<Rightarrow> Handlers \<Rightarrow> 'm world \<Rightarrow> addr \<times> 'm world" where
  "Party_Party p relativePath handlers w =
     (let parent = Parties w p;
          child = \<lparr>RelPath = RelPath parent @ relativePath, Macros = Macros parent,
                   Middleware = Middleware parent @ handlers,
                   DoneHandlers = DoneHandlers parent, DI = NextContainer w\<rparr>
      in (NextParty w,
          w\<lparr>Parties := (Parties w)(NextParty w := child),
            NextParty := Suc (NextParty w),
            Containers := (Containers w)(NextContainer w := Container_Clone (Containers w (DI parent))),
            NextContainer := Suc (NextContainer w)\<rparr>))"

section \<open>APIContainer\<close>

record APIContainer =
  Self :: addr
  Container :: addr

text \<open>
  Modelled from the spec: \<^verbatim>\<open>Party.ConfigureContainer\<close> is missing from the sources. It
  gives the scope paired with its own dependency container.
\<close>

definition Party_ConfigureContainer :: "addr \<Rightarrow> 'm world \<Rightarrow> APIContainer" where
  "Party_ConfigureContainer p w = \<lparr>Self = p, Container = DI (Parties w p)\<rparr>"

text \<open>The loop of \<^verbatim>\<open>convertHandlerFuncs\<close>: one \<^verbatim>\<open>append\<close> per function.\<close>

fun convert_loop :: "hero_Container \<Rightarrow> nat \<Rightarrow> HandlerFunction list \<Rightarrow> Handlers \<Rightarrow> Handlers" where
  "convert_loop c paramsCount [] handlers = handlers"
| "convert_loop c paramsCount (h # handlersFn) handlers =
     convert_loop c paramsCount handlersFn (handlers @ [Container_HandlerWithParams c h paramsCount])"

definition convertHandlerFuncs ::
  "APIContainer \<Rightarrow> string \<Rightarrow> HandlerFunction list \<Rightarrow> 'm world \<Rightarrow> Handlers" where
  "convertHandlerFuncs api relativePath handlersFn w =
     (let fullpath = Party_GetRelPath (Self api) w @ relativePath;
          paramsCount = macro_CountParams w fullpath (Party_Macros (Self api) w);
          handlers = convert_loop (Containers w (Container api)) paramsCount handlersFn [];
          opts = \<lparr>Force = True\<rparr>
      in ExecutionOptions_apply opts handlers)"

definition Party :: "APIContainer \<Rightarrow> string \<Rightarrow> HandlerFunction list \<Rightarrow> 'm world \<Rightarrow> APIContainer \<times> 'm world" where
  "Party api relativePath handlersFn w =
     (let handlers = convertHandlerFuncs api relativePath handlersFn w
      in case Party_Party (Self api) relativePath handlers w of
           (p, w') \<Rightarrow> (Party_ConfigureContainer p w', w'))"

definition OnError :: "APIContainer \<Rightarrow> ErrorHandler \<Rightarrow> 'm world \<Rightarrow> 'm world" where
  "OnError api errorHandler w =
     (let errHandler = errorHandler
      in w\<lparr>Containers := (Containers w)(Container api :=
            (Containers w (Container api))\<lparr>GetErrorHandler := (\<lambda>ctx. errHandler)\<rparr>)\<rparr>)"

definition RegisterDependency :: "APIContainer \<Rightarrow> Dependency \<Rightarrow> 'm world \<Rightarrow> Dependency \<times> 'm world" where
  "RegisterDependency api dependency w =
     (dependency,
      w\<lparr>Containers := (Containers w)(Container api :=
          Container_Register (Containers w (Container api)) dependency)\<rparr>)"


definition Use :: "APIContainer \<Rightarrow> HandlerFunction list \<Rightarrow> 'm world \<Rightarrow> 'm world" where
  "Use api handlersFn w =
     (let handlers = convertHandlerFuncs api ''/'' handlersFn w
      in Party_Use (Self api) handlers w)"

definition Done :: "APIContainer \<Rightarrow> HandlerFunction list \<Rightarrow> 'm world \<Rightarrow> 'm world" where
  "Done api handlersFn w =
     (let handlers = convertHandlerFuncs api ''/'' handlersFn w
      in Party_Done (Self api) handlers w)"

definition Handle ::
  "APIContainer \<Rightarrow> string \<Rightarrow> string \<Rightarrow> HandlerFunction list \<Rightarrow> 'm world \<Rightarrow> Route option \<times> 'm world" where
  "Handle api method relativePath handlersFn w =
     (let handlers = convertHandlerFuncs api relativePath handlersFn w
      in Party_Handle (Self api) method relativePath handlers w)"

text \<open>
  The method names of Go's \<^verbatim>\<open>net/http\<close>: \<^verbatim>\<open>http.MethodGet\<close> and the others.
\<close>

definition http_MethodGet :: string where "http_MethodGet = ''GET''"
definition http_MethodHead :: string where "http_MethodHead = ''HEAD''"
definition http_MethodPost :: string where "http_MethodPost = ''POST''"
definition http_MethodPut :: string where "http_MethodPut = ''PUT''"
definition http_MethodPatch :: string where "http_MethodPatch = ''PATCH''"
definition http_MethodDelete :: string where "http_MethodDelete = ''DELETE''"
definition http_MethodConnect :: string where "http_MethodConnect = ''CONNECT''"
definition http_MethodOptions :: string where "http_MethodOptions = ''OPTIONS''"
definition http_MethodTrace :: string where "http_MethodTrace = ''TRACE''"

definition Get ::
  "APIContainer \<Rightarrow> string \<Rightarrow> HandlerFunction list \<Rightarrow> 'm world \<Rightarrow> Route option \<times> 'm world" where
  "Get api relativePath handlersFn w = Handle api http_MethodGet relativePath handlersFn w"

definition Post ::
  "APIContainer \<Rightarrow> string \<Rightarrow> HandlerFunction list \<Rightarrow> 'm world \<Rightarrow> Route option \<times> 'm world" where
  "Post api relativePath handlersFn w = Handle api http_MethodPost relativePath handlersFn w"

definition Put ::
  "APIContainer \<Rightarrow> string \<Rightarrow> HandlerFunction list \<Rightarrow> 'm world \<Rightarrow> Route option \<times> 'm world" where
  "Put api relativePath handlersFn w = Handle api http_MethodPut relativePath handlersFn w"

definition Delete ::
  "APIContainer \<Rightarrow> string \<Rightarrow> HandlerFunction list \<Rightarrow> 'm world \<Rightarrow> Route option \<times> 'm world" where
  "Delete api relativePath handlersFn w = Handle api http_MethodDelete relativePath handlersFn w"

definition Connect ::
  "APIContainer \<Rightarrow> string \<Rightarrow> HandlerFunction list \<Rightarrow> 'm world \<Rightarrow> Route option \<times> 'm world" where
  "Connect api relativePath handlersFn w = Handle api http_MethodConnect relativePath handlersFn w"

definition Head ::
  "APIContainer \<Rightarrow> string \<Rightarrow> HandlerFunction list \<Rightarrow> 'm world \<Rightarrow> Route option \<times> 'm world" where
  "Head api relativePath handlersFn w = Handle api http_MethodHead relativePath handlersFn w"

definition Options ::
  "APIContainer \<Rightarrow> string \<Rightarrow> HandlerFunction list \<Rightarrow> 'm world \<Rightarrow> Route option \<times> 'm world" where
  "Options api relativePath handlersFn w = Handle api http_MethodOptions relativePath handlersFn w"

definition Patch ::
  "APIContainer \<Rightarrow> string \<Rightarrow> HandlerFunction list \<Rightarrow> 'm world \<Rightarrow> Route option \<times> 'm world" where
  "Patch api relativePath handlersFn w = Handle api http_MethodPatch relativePath handlersFn w"

definition Trace ::
  "APIContainer \<Rightarrow> string \<Rightarrow> HandlerFunction list \<Rightarrow> 'm world \<Rightarrow> Route option \<times> 'm world" where
  "Trace api relativePath handlersFn w = Handle api http_MethodTrace relativePath handlersFn w"

text \<open>
  Modelled from the spec: the variable \<^verbatim>\<open>AllMethods\<close> is missing from the sources.
  Spec 4.6: the fixed ordered set of standard HTTP methods GET, POST, PUT, DELETE, HEAD,
  PATCH, OPTIONS, CONNECT, TRACE (the order of the doc comment of \<^verbatim>\<open>Any\<close> too).
\<close>

definition AllMethods :: "string list" where
  "AllMethods =
     [http_MethodGet, http_MethodPost, http_MethodPut, http_MethodDelete, http_MethodHead,
      http_MethodPatch, http_MethodOptions, http_MethodConnect, http_MethodTrace]"

text \<open>The loop of \<^verbatim>\<open>Any\<close> over the methods, \<^verbatim>\<open>routes\<close> being the named result.\<close>

fun Any_loop ::
  "APIContainer \<Rightarrow> string list \<Rightarrow> string \<Rightarrow> Handlers \<Rightarrow> Route option list \<Rightarrow> 'm world
    \<Rightarrow> Route option list \<times> 'm world" where
  "Any_loop api [] relativePath handlers routes w = (routes, w)"
| "Any_loop api (m # methods) relativePath handlers routes w =
     (case Party_HandleMany (Self api) m relativePath handlers w of
        (r, w') \<Rightarrow> Any_loop api methods relativePath handlers (routes @ r) w')"

definition Any ::
  "APIContainer \<Rightarrow> string \<Rightarrow> HandlerFunction list \<Rightarrow> 'm world \<Rightarrow> Route option list \<times> 'm world" where
  "Any api relativePath handlersFn w =
     (let handlers = convertHandlerFuncs api relativePath handlersFn w
      in Any_loop api AllMethods relativePath handlers [] w)"

section \<open>Serving a request\<close>

text \<open>
  Modelled from the spec: what a built handler does when the routing table invokes it is
  missing from the sources (package \<^verbatim>\<open>hero\<close>). Spec 4.3 and 7: the function's return
  value goes to the captured result handler; an error other than the sentinel goes to the
  captured error handler; the stop sentinel halts the pipeline for this request and
  bypasses the error handler.
\<close>

fun dispatch :: "Handler \<Rightarrow> Context \<Rightarrow> Output \<Rightarrow> Context" where
  "dispatch h ctx (Output v (Some ErrStopExecution)) = ctx\<lparr>Stopped := True\<rparr>"
| "dispatch h ctx (Output v (Some (Failure e))) = ErrorHandlerOf h ctx ctx (Failure e)"
| "dispatch h ctx (Output None None) = ctx"
| "dispatch h ctx (Output (Some v) None) = ResultHandlerOf h ctx v"

definition invoke :: "Handler \<Rightarrow> Context \<Rightarrow> Context" where
  "invoke h ctx = dispatch h ctx (Call (Fn h) ctx)"


section \<open>What the registrations amount to\<close>

text \<open>
  The route \<^verbatim>\<open>Any\<close> and \<^verbatim>\<open>Handle\<close> hand to the routing table for a method.
\<close>

definition route_for :: "APIContainer \<Rightarrow> string \<Rightarrow> Handlers \<Rightarrow> string \<Rightarrow> Route" where
  "route_for api relativePath handlers m =
     \<lparr>Method = m, Scope = Self api, Path = relativePath, RouteHandlers = handlers\<rparr>"

text \<open>
  Independent registration attempts, one after the other: the result of each attempt, and
  the routing table after all of them.
\<close>

fun attempt_each :: "(Route list \<Rightarrow> Route \<Rightarrow> bool) \<Rightarrow> Route list \<Rightarrow> Route list \<Rightarrow> Route option list" where
  "attempt_each rule tbl [] = []"
| "attempt_each rule tbl (r # rs) =
     (if rule tbl r then Some r # attempt_each rule (tbl @ [r]) rs
      else None # attempt_each rule tbl rs)"

fun table_after :: "(Route list \<Rightarrow> Route \<Rightarrow> bool) \<Rightarrow> Route list \<Rightarrow> Route list \<Rightarrow> Route list" where
  "table_after rule tbl [] = tbl"
| "table_after rule tbl (r # rs) =
     (if rule tbl r then table_after rule (tbl @ [r]) rs else table_after rule tbl rs)"

section \<open>A small application\<close>

text \<open>
  One root scope \<^verbatim>\<open>/api\<close> at address 0 with its container at address 0; the analyzer
  counts the opening braces of a pattern; every route is accepted; a path stands for
  itself.
\<close>

definition defaultErrorHandler :: ErrorHandler where
  "defaultErrorHandler ctx e = ctx\<lparr>Stopped := True, Response := Response ctx @ [''500'']\<rparr>"

definition defaultResultHandler :: ResultHandler where
  "defaultResultHandler ctx v = ctx\<lparr>Response := Response ctx @ [v]\<rparr>"

definition container0 :: hero_Container where
  "container0 =
     \<lparr>Dependencies = [], GetErrorHandler = (\<lambda>ctx. defaultErrorHandler),
      resultHandler = defaultResultHandler\<rparr>"

definition party0 :: "unit PartyState" where
  "party0 = \<lparr>RelPath = ''/api'', Macros = (), Middleware = [], DoneHandlers = [], DI = 0\<rparr>"

definition world0 :: "unit world" where
  "world0 =
     \<lparr>Parties = (\<lambda>a. party0), NextParty = 1,
      Containers = (\<lambda>a. container0), NextContainer = 1,
      Routes = [],
      macro_CountParams = (\<lambda>path ms. length (filter (\<lambda>c. c = CHR ''{'') path)),
      RegisterRule = (\<lambda>tbl r. True),
      SplitPath = (\<lambda>path. [path])\<rparr>"

definition api0 :: APIContainer where
  "api0 = \<lparr>Self = 0, Container = 0\<rparr>"

definition ctx0 :: Context where
  "ctx0 = \<lparr>Stopped = False, Response = []\<rparr>"

definition pong :: HandlerFunction where
  "pong = \<lparr>FuncName = ''pong'', Call = (\<lambda>ctx. Output (Some ''pong'') None)\<rparr>"


definition broken :: HandlerFunction where
  "broken = \<lparr>FuncName = ''broken'', Call = (\<lambda>ctx. Output None (Some (Failure ''boom'')))\<rparr>"

definition logError :: ErrorHandler where
  "logError ctx e = ctx\<lparr>Response := Response ctx @ [''logged'']\<rparr>"

definition dep1 :: Dependency where
  "dep1 = \<lparr>DestType = ''Logger'', Payload = ''dev''\<rparr>"

text \<open>A routing table that refuses every POST route, and a result handler that stops the request.\<close>

definition refusePOST :: "Route list \<Rightarrow> Route \<Rightarrow> bool" where
  "refusePOST tbl r = (Method r \<noteq> ''POST'')"


section \<open>Theorems\<close>

subsection \<open>Conversion of handler functions\<close>

lemma convert_loop_map:
  "convert_loop c n fns acc = acc @ map (\<lambda>f. Container_HandlerWithParams c f n) fns"
  by (induction fns arbitrary: acc) simp_all

lemma convertHandlerFuncs_map:
  "convertHandlerFuncs api relativePath fns w =
     map (\<lambda>f. \<lparr>Fn = f,
                ParamsCount = macro_CountParams w (RelPath (Parties w (Self api)) @ relativePath)
                                (Macros (Parties w (Self api))),
                ErrorHandlerOf = GetErrorHandler (Containers w (Container api)),
                ResultHandlerOf = resultHandler (Containers w (Container api)),
                AutoNext = True\<rparr>) fns"
  by (simp add: convertHandlerFuncs_def convert_loop_map ExecutionOptions_apply_def
      Container_HandlerWithParams_def Party_GetRelPath_def Party_Macros_def Let_def)

lemma length_convertHandlerFuncs:
  "length (convertHandlerFuncs api relativePath fns w) = length fns"
  by (simp add: convertHandlerFuncs_map)

lemma Fn_convertHandlerFuncs:
  "map Fn (convertHandlerFuncs api relativePath fns w) = fns"
  by (simp add: convertHandlerFuncs_map comp_def)

lemma ParamsCount_convertHandlerFuncs:
  "map ParamsCount (convertHandlerFuncs api relativePath fns w) =
     replicate (length fns)
       (macro_CountParams w (RelPath (Parties w (Self api)) @ relativePath)
          (Macros (Parties w (Self api))))"
  by (simp add: convertHandlerFuncs_map comp_def map_replicate_const)

text \<open>
  C5. \<^verbatim>\<open>Handle\<close> adapts each function into exactly one handler, in the given order (the
  handler list is as long as the function list and its \<open>i\<close>-th handler wraps the \<open>i\<close>-th
  function), hands that list to the routing table under the method and the path, and
  returns what the routing table returns: the created route, which is then the last entry
  of the table, or nothing when the table refuses the route.
\<close>

theorem Handle_registers_adapted_list:
  "length (convertHandlerFuncs api relativePath fns w) = length fns
   \<and> map Fn (convertHandlerFuncs api relativePath fns w) = fns
   \<and> Handle api method relativePath fns w =
       (if RegisterRule w (Routes w)
             \<lparr>Method = method, Scope = Self api, Path = relativePath,
              RouteHandlers = convertHandlerFuncs api relativePath fns w\<rparr>
        then (Some \<lparr>Method = method, Scope = Self api, Path = relativePath,
                    RouteHandlers = convertHandlerFuncs api relativePath fns w\<rparr>,
              w\<lparr>Routes := Routes w @
                   [\<lparr>Method = method, Scope = Self api, Path = relativePath,
                     RouteHandlers = convertHandlerFuncs api relativePath fns w\<rparr>]\<rparr>)
        else (None, w))"
  by (simp add: length_convertHandlerFuncs Fn_convertHandlerFuncs Handle_def Party_Handle_def Let_def)

theorem Handle_registers_adapted_list_witness:
  "Handle api0 ''GET'' ''/ping'' [pong] world0 =
     (Some \<lparr>Method = ''GET'', Scope = 0, Path = ''/ping'',
            RouteHandlers = [\<lparr>Fn = pong, ParamsCount = 0, ErrorHandlerOf = (\<lambda>ctx. defaultErrorHandler),
                              ResultHandlerOf = defaultResultHandler, AutoNext = True\<rparr>]\<rparr>,
      world0\<lparr>Routes := [\<lparr>Method = ''GET'', Scope = 0, Path = ''/ping'',
            RouteHandlers = [\<lparr>Fn = pong, ParamsCount = 0, ErrorHandlerOf = (\<lambda>ctx. defaultErrorHandler),
                              ResultHandlerOf = defaultResultHandler, AutoNext = True\<rparr>]\<rparr>]\<rparr>)"
  using Handle_registers_adapted_list [of api0 "''/ping''" "[pong]" world0 "''GET''"]
  by (simp add: convertHandlerFuncs_map world0_def api0_def party0_def container0_def)

text \<open>
  C6. The number of path parameters every function's handler is built with is the
  analyzer's count for the full path, the scope's relative path followed by the route's
  relative path, with the scope's macros; it is the same for every function of the call.
  \<^verbatim>\<open>Handle\<close> passes the handlers built so to the routing table.
\<close>

theorem paramsCount_from_full_path:
  "map ParamsCount (convertHandlerFuncs api relativePath fns w) =
     replicate (length fns)
       (macro_CountParams w (Party_GetRelPath (Self api) w @ relativePath) (Party_Macros (Self api) w))
   \<and> Handle api method relativePath fns w =
       Party_Handle (Self api) method relativePath (convertHandlerFuncs api relativePath fns w) w"
  by (simp add: ParamsCount_convertHandlerFuncs Party_GetRelPath_def Party_Macros_def Handle_def)

text \<open>
  C9. Each per-verb helper is \<^verbatim>\<open>Handle\<close> with the standard name of its method and the
  same arguments.
\<close>

theorem verb_helpers_are_Handle:
  "Get api relativePath fns w = Handle api ''GET'' relativePath fns w
   \<and> Post api relativePath fns w = Handle api ''POST'' relativePath fns w
   \<and> Put api relativePath fns w = Handle api ''PUT'' relativePath fns w
   \<and> Delete api relativePath fns w = Handle api ''DELETE'' relativePath fns w
   \<and> Connect api relativePath fns w = Handle api ''CONNECT'' relativePath fns w
   \<and> Head api relativePath fns w = Handle api ''HEAD'' relativePath fns w
   \<and> Options api relativePath fns w = Handle api ''OPTIONS'' relativePath fns w
   \<and> Patch api relativePath fns w = Handle api ''PATCH'' relativePath fns w
   \<and> Trace api relativePath fns w = Handle api ''TRACE'' relativePath fns w"
  unfolding Get_def Post_def Put_def Delete_def Connect_def Head_def Options_def Patch_def
    Trace_def http_MethodGet_def http_MethodPost_def http_MethodPut_def http_MethodDelete_def
    http_MethodConnect_def http_MethodHead_def http_MethodOptions_def http_MethodPatch_def
    http_MethodTrace_def
  by simp

text \<open>
  C10. \<^verbatim>\<open>Use\<close> and \<^verbatim>\<open>Done\<close> convert their functions against the fixed relative path
  \<^verbatim>\<open>/\<close>: the path-parameter count of each middleware handler is the analyzer's count
  for the scope's own relative path followed by \<^verbatim>\<open>/\<close>. The converted list goes
  unchanged to the scope's \<^verbatim>\<open>Use\<close> and \<^verbatim>\<open>Done\<close>, which append it to the scope's
  handlers before and after the main chain.
\<close>

theorem Use_Done_convert_against_slash:
  "Use api fns w = Party_Use (Self api) (convertHandlerFuncs api ''/'' fns w) w
   \<and> Done api fns w = Party_Done (Self api) (convertHandlerFuncs api ''/'' fns w) w
   \<and> map ParamsCount (convertHandlerFuncs api ''/'' fns w) =
       replicate (length fns)
         (macro_CountParams w (Party_GetRelPath (Self api) w @ ''/'') (Party_Macros (Self api) w))
   \<and> Middleware (Parties (Use api fns w) (Self api)) =
       Middleware (Parties w (Self api)) @ convertHandlerFuncs api ''/'' fns w
   \<and> DoneHandlers (Parties (Done api fns w) (Self api)) =
       DoneHandlers (Parties w (Self api)) @ convertHandlerFuncs api ''/'' fns w"
  by (simp add: Use_def Done_def Party_Use_def Party_Done_def ParamsCount_convertHandlerFuncs
      Party_GetRelPath_def Party_Macros_def)


lemma OnError_Containers_same:
  "GetErrorHandler (Containers (OnError api h w) (Container api)) = (\<lambda>ctx. h)"
  by (simp add: OnError_def)

text \<open>
  C7. A scope has exactly one active error handler: after \<^verbatim>\<open>OnError(h)\<close> the container's
  accessor \<^verbatim>\<open>GetErrorHandler\<close> returns \<open>h\<close> for every request context, and a later
  \<^verbatim>\<open>OnError(h2)\<close> replaces it, so that every later lookup returns \<open>h2\<close>.
\<close>

theorem OnError_last_wins:
  "GetErrorHandler (Containers (OnError api h w) (Container api)) ctx = h
   \<and> GetErrorHandler (Containers (OnError api h2 (OnError api h w)) (Container api)) ctx = h2"
  by (simp add: OnError_def)

subsection \<open>The loop of Any\<close>

lemma Party_HandleMany_single:
  "SplitPath w path = [path] \<Longrightarrow>
   Party_HandleMany p m path hs w =
     (if RegisterRule w (Routes w) \<lparr>Method = m, Scope = p, Path = path, RouteHandlers = hs\<rparr>
      then ([Some \<lparr>Method = m, Scope = p, Path = path, RouteHandlers = hs\<rparr>],
            w\<lparr>Routes := Routes w @ [\<lparr>Method = m, Scope = p, Path = path, RouteHandlers = hs\<rparr>]\<rparr>)
      else ([None], w))"
  by (simp add: Party_HandleMany_def Party_Handle_def Let_def)

lemma Any_loop_attempts:
  "SplitPath w path = [path] \<Longrightarrow>
   Any_loop api ms path hs acc w =
     (acc @ attempt_each (RegisterRule w) (Routes w) (map (route_for api path hs) ms),
      w\<lparr>Routes := table_after (RegisterRule w) (Routes w) (map (route_for api path hs) ms)\<rparr>)"
proof (induction ms arbitrary: acc w)
  case Nil
  then show ?case by simp
next
  case (Cons m ms)
  show ?case
  proof (cases "RegisterRule w (Routes w) (route_for api path hs m)")
    case True
    let ?w' = "w\<lparr>Routes := Routes w @ [route_for api path hs m]\<rparr>"
    have s: "SplitPath ?w' path = [path]" using Cons.prems by simp
    show ?thesis
      using True Cons.prems Cons.IH [OF s]
      by (simp add: Party_HandleMany_single route_for_def)
  next
    case False
    then show ?thesis
      using Cons.prems Cons.IH [OF Cons.prems]
      by (simp add: Party_HandleMany_single route_for_def)
  qed
qed

lemma attempt_each_all_accepted:
  "(\<forall>i<length rs. rule (tbl @ take i rs) (rs ! i)) \<Longrightarrow>
   attempt_each rule tbl rs = map Some rs \<and> table_after rule tbl rs = tbl @ rs"
proof (induction rs arbitrary: tbl)
  case Nil
  then show ?case by simp
next
  case (Cons r rs)
  have r: "rule tbl r" using Cons.prems by fastforce
  have "\<forall>i<length rs. rule ((tbl @ [r]) @ take i rs) (rs ! i)"
  proof (intro allI impI)
    fix i assume "i < length rs"
    then have "Suc i < length (r # rs)" by simp
    from Cons.prems [rule_format, OF this] show "rule ((tbl @ [r]) @ take i rs) (rs ! i)" by simp
  qed
  from Cons.IH [OF this] r show ?case by simp
qed

lemma attempt_each_shape:
  "list_all2 (\<lambda>r res. res = None \<or> res = Some r) rs (attempt_each rule tbl rs)"
  by (induction rs arbitrary: tbl) simp_all

lemma attempt_each_accepts:
  "list_all2 (\<lambda>r res. (\<forall>t. rule t r) \<longrightarrow> res = Some r) rs (attempt_each rule tbl rs)"
  by (induction rs arbitrary: tbl) auto

lemma AllMethods_names:
  "AllMethods = [''GET'', ''POST'', ''PUT'', ''DELETE'', ''HEAD'', ''PATCH'', ''OPTIONS'', ''CONNECT'', ''TRACE'']"
  by (simp add: AllMethods_def http_MethodGet_def http_MethodPost_def http_MethodPut_def
      http_MethodDelete_def http_MethodHead_def http_MethodPatch_def http_MethodOptions_def
      http_MethodConnect_def http_MethodTrace_def)

lemma Any_attempts:
  "SplitPath w path = [path] \<Longrightarrow>
   Any api path fns w =
     (attempt_each (RegisterRule w) (Routes w)
        (map (route_for api path (convertHandlerFuncs api path fns w)) AllMethods),
      w\<lparr>Routes := table_after (RegisterRule w) (Routes w)
        (map (route_for api path (convertHandlerFuncs api path fns w)) AllMethods)\<rparr>)"
  by (simp add: Any_def Any_loop_attempts Let_def)

text \<open>
  C1. For every relative path that stands for a single route and every list of handler
  functions, when the routing table accepts each of the routes, \<^verbatim>\<open>Any\<close> registers exactly
  one route for each method of GET, POST, PUT, DELETE, HEAD, PATCH, OPTIONS, CONNECT, TRACE,
  in this order: nine routes, returned in this order and appended in this order to the
  routing table. Every one of them carries the same handler list, converted once in the
  state before the loop: one handler for each function, in the order of the functions,
  built by the scope's container with the path-parameter count of the full path and set to
  continue by itself.
\<close>

theorem Any_one_route_per_method:
  assumes single: "SplitPath w relativePath = [relativePath]"
    and accepted: "\<forall>i<9. RegisterRule w
        (Routes w @ map (route_for api relativePath (convertHandlerFuncs api relativePath fns w))
                      (take i AllMethods))
        (route_for api relativePath (convertHandlerFuncs api relativePath fns w) (AllMethods ! i))"
  shows "fst (Any api relativePath fns w) =
           map (\<lambda>m. Some \<lparr>Method = m, Scope = Self api, Path = relativePath,
                           RouteHandlers = convertHandlerFuncs api relativePath fns w\<rparr>)
             [''GET'', ''POST'', ''PUT'', ''DELETE'', ''HEAD'', ''PATCH'', ''OPTIONS'', ''CONNECT'', ''TRACE'']
         \<and> length (fst (Any api relativePath fns w)) = 9
         \<and> Routes (snd (Any api relativePath fns w)) =
             Routes w @
             map (\<lambda>m. \<lparr>Method = m, Scope = Self api, Path = relativePath,
                        RouteHandlers = convertHandlerFuncs api relativePath fns w\<rparr>)
               [''GET'', ''POST'', ''PUT'', ''DELETE'', ''HEAD'', ''PATCH'', ''OPTIONS'', ''CONNECT'', ''TRACE'']
         \<and> convertHandlerFuncs api relativePath fns w =
             map (\<lambda>f. \<lparr>Fn = f,
                        ParamsCount = macro_CountParams w (RelPath (Parties w (Self api)) @ relativePath)
                                        (Macros (Parties w (Self api))),
                        ErrorHandlerOf = GetErrorHandler (Containers w (Container api)),
                        ResultHandlerOf = resultHandler (Containers w (Container api)),
                        AutoNext = True\<rparr>) fns
         \<and> map Fn (convertHandlerFuncs api relativePath fns w) = fns"
proof -
  let ?hs = "convertHandlerFuncs api relativePath fns w"
  let ?rs = "map (route_for api relativePath ?hs) AllMethods"
  have len: "length AllMethods = 9" by (simp add: AllMethods_def)
  have "\<forall>i<length ?rs. RegisterRule w (Routes w @ take i ?rs) (?rs ! i)"
  proof (intro allI impI)
    fix i assume "i < length ?rs"
    then have i: "i < 9" using len by simp
    then show "RegisterRule w (Routes w @ take i ?rs) (?rs ! i)"
      using accepted [rule_format, OF i] len by (simp add: take_map)
  qed
  from attempt_each_all_accepted [OF this]
  have e1: "attempt_each (RegisterRule w) (Routes w) ?rs = map Some ?rs"
    and e2: "table_after (RegisterRule w) (Routes w) ?rs = Routes w @ ?rs" by simp_all
  have a: "Any api relativePath fns w =
     (attempt_each (RegisterRule w) (Routes w) ?rs,
      w\<lparr>Routes := table_after (RegisterRule w) (Routes w) ?rs\<rparr>)"
    by (rule Any_attempts [OF single])
  have r1: "fst (Any api relativePath fns w) = map Some ?rs"
    by (simp add: a e1)
  have r2: "Routes (snd (Any api relativePath fns w)) = Routes w @ ?rs"
    by (simp add: a e2)
  have three: "fst (Any api relativePath fns w) =
           map (\<lambda>m. Some \<lparr>Method = m, Scope = Self api, Path = relativePath, RouteHandlers = ?hs\<rparr>)
             [''GET'', ''POST'', ''PUT'', ''DELETE'', ''HEAD'', ''PATCH'', ''OPTIONS'', ''CONNECT'', ''TRACE'']
         \<and> length (fst (Any api relativePath fns w)) = 9
         \<and> Routes (snd (Any api relativePath fns w)) =
             Routes w @
             map (\<lambda>m. \<lparr>Method = m, Scope = Self api, Path = relativePath, RouteHandlers = ?hs\<rparr>)
               [''GET'', ''POST'', ''PUT'', ''DELETE'', ''HEAD'', ''PATCH'', ''OPTIONS'', ''CONNECT'', ''TRACE'']"
    unfolding r1 r2 AllMethods_names by (simp add: route_for_def)
  have chain: "?hs =
             map (\<lambda>f. \<lparr>Fn = f,
                        ParamsCount = macro_CountParams w (RelPath (Parties w (Self api)) @ relativePath)
                                        (Macros (Parties w (Self api))),
                        ErrorHandlerOf = GetErrorHandler (Containers w (Container api)),
                        ResultHandlerOf = resultHandler (Containers w (Container api)),
                        AutoNext = True\<rparr>) fns"
    by (rule convertHandlerFuncs_map)
  have fns: "map Fn ?hs = fns" by (rule Fn_convertHandlerFuncs)
  from three chain fns show ?thesis by blast
qed

theorem Any_one_route_per_method_witness:
  "SplitPath world0 ''/ping'' = [''/ping'']
   \<and> fst (Any api0 ''/ping'' [pong] world0) =
       map (\<lambda>m. Some \<lparr>Method = m, Scope = 0, Path = ''/ping'',
                       RouteHandlers =
                         [\<lparr>Fn = pong, ParamsCount = 0, ErrorHandlerOf = (\<lambda>ctx. defaultErrorHandler),
                           ResultHandlerOf = defaultResultHandler, AutoNext = True\<rparr>]\<rparr>)
         [''GET'', ''POST'', ''PUT'', ''DELETE'', ''HEAD'', ''PATCH'', ''OPTIONS'', ''CONNECT'', ''TRACE'']
   \<and> length (Routes (snd (Any api0 ''/ping'' [pong] world0))) = 9"
proof -
  have single: "SplitPath world0 ''/ping'' = [''/ping'']" by (simp add: world0_def)
  have accepted: "\<forall>i<9. RegisterRule world0
        (Routes world0 @ map (route_for api0 ''/ping'' (convertHandlerFuncs api0 ''/ping'' [pong] world0))
                      (take i AllMethods))
        (route_for api0 ''/ping'' (convertHandlerFuncs api0 ''/ping'' [pong] world0) (AllMethods ! i))"
    by (simp add: world0_def)
  note t = Any_one_route_per_method [OF single accepted]
  have "convertHandlerFuncs api0 ''/ping'' [pong] world0 =
      map (\<lambda>f. \<lparr>Fn = f,
                 ParamsCount = macro_CountParams world0 (RelPath (Parties world0 (Self api0)) @ ''/ping'')
                                 (Macros (Parties world0 (Self api0))),
                 ErrorHandlerOf = GetErrorHandler (Containers world0 (Container api0)),
                 ResultHandlerOf = resultHandler (Containers world0 (Container api0)),
                 AutoNext = True\<rparr>) [pong]"
    using t by blast
  then have hs: "convertHandlerFuncs api0 ''/ping'' [pong] world0 =
      [\<lparr>Fn = pong, ParamsCount = 0, ErrorHandlerOf = (\<lambda>ctx. defaultErrorHandler),
        ResultHandlerOf = defaultResultHandler, AutoNext = True\<rparr>]"
    by (simp add: world0_def api0_def party0_def container0_def)
  have r: "fst (Any api0 ''/ping'' [pong] world0) =
           map (\<lambda>m. Some \<lparr>Method = m, Scope = Self api0, Path = ''/ping'',
                           RouteHandlers = convertHandlerFuncs api0 ''/ping'' [pong] world0\<rparr>)
             [''GET'', ''POST'', ''PUT'', ''DELETE'', ''HEAD'', ''PATCH'', ''OPTIONS'', ''CONNECT'', ''TRACE'']"
    using t by blast
  have n: "Routes (snd (Any api0 ''/ping'' [pong] world0)) =
             Routes world0 @
             map (\<lambda>m. \<lparr>Method = m, Scope = Self api0, Path = ''/ping'',
                        RouteHandlers = convertHandlerFuncs api0 ''/ping'' [pong] world0\<rparr>)
               [''GET'', ''POST'', ''PUT'', ''DELETE'', ''HEAD'', ''PATCH'', ''OPTIONS'', ''CONNECT'', ''TRACE'']"
    using t by blast
  have 1: "fst (Any api0 ''/ping'' [pong] world0) =
       map (\<lambda>m. Some \<lparr>Method = m, Scope = 0, Path = ''/ping'',
                       RouteHandlers =
                         [\<lparr>Fn = pong, ParamsCount = 0, ErrorHandlerOf = (\<lambda>ctx. defaultErrorHandler),
                           ResultHandlerOf = defaultResultHandler, AutoNext = True\<rparr>]\<rparr>)
         [''GET'', ''POST'', ''PUT'', ''DELETE'', ''HEAD'', ''PATCH'', ''OPTIONS'', ''CONNECT'', ''TRACE'']"
    unfolding r hs by (simp add: api0_def)
  have 2: "length (Routes (snd (Any api0 ''/ping'' [pong] world0))) = 9"
    unfolding n by (simp add: world0_def)
  from single 1 2 show ?thesis by blast
qed

text \<open>
  C1, as first stated, fails where the routing table refuses a route: with a table that
  refuses POST, \<^verbatim>\<open>Any\<close> on the single-route path \<^verbatim>\<open>/ping\<close> with one function leaves
  eight routes in the table, none of them for POST, and reports nothing for POST.
\<close>

theorem Any_refused_method_counterexample:
  "SplitPath (world0\<lparr>RegisterRule := refusePOST\<rparr>) ''/ping'' = [''/ping'']
   \<and> length (Routes (snd (Any api0 ''/ping'' [pong] (world0\<lparr>RegisterRule := refusePOST\<rparr>)))) = 8
   \<and> ''POST'' \<notin> set (map Method (Routes (snd (Any api0 ''/ping'' [pong] (world0\<lparr>RegisterRule := refusePOST\<rparr>)))))
   \<and> fst (Any api0 ''/ping'' [pong] (world0\<lparr>RegisterRule := refusePOST\<rparr>)) ! 1 = None"
proof -
  have single: "SplitPath (world0\<lparr>RegisterRule := refusePOST\<rparr>) ''/ping'' = [''/ping'']"
    by (simp add: world0_def)
  note a = Any_attempts [OF single, of api0 "[pong]"]
  show ?thesis
    unfolding a
    by (simp add: AllMethods_names route_for_def refusePOST_def world0_def)
qed

text \<open>
  C8. In \<^verbatim>\<open>Any\<close> the registration of each method is attempted independently. The
  returned slice has one result for each method, in the order of the methods: nothing when
  the routing table refused the route of that method, the route otherwise. A refusal for
  one method does not keep the other methods from their attempt: a route that the table
  accepts whatever it holds is registered and reported, and the results are those of nine
  attempts made one after the other.
\<close>

theorem Any_attempts_each_method:
  assumes single: "SplitPath w relativePath = [relativePath]"
  shows "list_all2
           (\<lambda>m res. (res = None \<or> res = Some \<lparr>Method = m, Scope = Self api, Path = relativePath,
                           RouteHandlers = convertHandlerFuncs api relativePath fns w\<rparr>)
                  \<and> ((\<forall>tbl. RegisterRule w tbl \<lparr>Method = m, Scope = Self api, Path = relativePath,
                           RouteHandlers = convertHandlerFuncs api relativePath fns w\<rparr>)
                     \<longrightarrow> res = Some \<lparr>Method = m, Scope = Self api, Path = relativePath,
                           RouteHandlers = convertHandlerFuncs api relativePath fns w\<rparr>))
           [''GET'', ''POST'', ''PUT'', ''DELETE'', ''HEAD'', ''PATCH'', ''OPTIONS'', ''CONNECT'', ''TRACE'']
           (fst (Any api relativePath fns w))
         \<and> Any api relativePath fns w =
             (attempt_each (RegisterRule w) (Routes w)
                (map (route_for api relativePath (convertHandlerFuncs api relativePath fns w)) AllMethods),
              w\<lparr>Routes := table_after (RegisterRule w) (Routes w)
                (map (route_for api relativePath (convertHandlerFuncs api relativePath fns w)) AllMethods)\<rparr>)"
proof -
  let ?hs = "convertHandlerFuncs api relativePath fns w"
  let ?route = "route_for api relativePath ?hs"
  let ?P = "\<lambda>r res. (res = None \<or> res = Some r) \<and> ((\<forall>t. RegisterRule w t r) \<longrightarrow> res = Some r)"
  have a: "Any api relativePath fns w =
     (attempt_each (RegisterRule w) (Routes w) (map ?route AllMethods),
      w\<lparr>Routes := table_after (RegisterRule w) (Routes w) (map ?route AllMethods)\<rparr>)"
    by (rule Any_attempts [OF single])
  have "list_all2 ?P (map ?route AllMethods) (attempt_each (RegisterRule w) (Routes w) (map ?route AllMethods))"
    using attempt_each_shape [of "map ?route AllMethods" "RegisterRule w" "Routes w"]
      attempt_each_accepts [of "RegisterRule w" "map ?route AllMethods" "Routes w"]
    by (simp add: list_all2_conv_all_nth)
  then have "list_all2 (\<lambda>m res. ?P (?route m) res) AllMethods (fst (Any api relativePath fns w))"
    by (simp add: a list_all2_map1)
  then have "list_all2 (\<lambda>m res. ?P (?route m) res)
      [''GET'', ''POST'', ''PUT'', ''DELETE'', ''HEAD'', ''PATCH'', ''OPTIONS'', ''CONNECT'', ''TRACE'']
      (fst (Any api relativePath fns w))"
    by (simp only: AllMethods_names)
  then have "list_all2
           (\<lambda>m res. (res = None \<or> res = Some \<lparr>Method = m, Scope = Self api, Path = relativePath,
                           RouteHandlers = convertHandlerFuncs api relativePath fns w\<rparr>)
                  \<and> ((\<forall>tbl. RegisterRule w tbl \<lparr>Method = m, Scope = Self api, Path = relativePath,
                           RouteHandlers = convertHandlerFuncs api relativePath fns w\<rparr>)
                     \<longrightarrow> res = Some \<lparr>Method = m, Scope = Self api, Path = relativePath,
                           RouteHandlers = convertHandlerFuncs api relativePath fns w\<rparr>))
           [''GET'', ''POST'', ''PUT'', ''DELETE'', ''HEAD'', ''PATCH'', ''OPTIONS'', ''CONNECT'', ''TRACE'']
           (fst (Any api relativePath fns w))"
    by (simp only: route_for_def)
  then show ?thesis using a by blast
qed

theorem Any_attempts_each_method_witness:
  "SplitPath (world0\<lparr>RegisterRule := (\<lambda>tbl r. Method r \<noteq> ''POST'')\<rparr>) ''/x'' = [''/x'']
   \<and> map (map_option Method) (fst (Any api0 ''/x'' [pong] (world0\<lparr>RegisterRule := (\<lambda>tbl r. Method r \<noteq> ''POST'')\<rparr>))) =
       [Some ''GET'', None, Some ''PUT'', Some ''DELETE'', Some ''HEAD'', Some ''PATCH'',
        Some ''OPTIONS'', Some ''CONNECT'', Some ''TRACE'']
   \<and> map Method (Routes (snd (Any api0 ''/x'' [pong] (world0\<lparr>RegisterRule := (\<lambda>tbl r. Method r \<noteq> ''POST'')\<rparr>)))) =
       [''GET'', ''PUT'', ''DELETE'', ''HEAD'', ''PATCH'', ''OPTIONS'', ''CONNECT'', ''TRACE'']"
proof -
  have single: "SplitPath (world0\<lparr>RegisterRule := (\<lambda>tbl r. Method r \<noteq> ''POST'')\<rparr>) ''/x'' = [''/x'']"
    by (simp add: world0_def)
  show ?thesis
    using single Any_attempts_each_method [OF single, of api0 "[pong]"]
    by (simp add: world0_def route_for_def AllMethods_names)
qed

subsection \<open>Built handlers at request time\<close>


lemma ErrorHandlerOf_convertHandlerFuncs:
  "h \<in> set (convertHandlerFuncs api relativePath fns w) \<Longrightarrow>
   ErrorHandlerOf h = GetErrorHandler (Containers w (Container api))"
  by (auto simp: convertHandlerFuncs_map)




text \<open>
  C2. Replacing the scope's error handler with \<^verbatim>\<open>OnError\<close> leaves the handlers built
  before bound to the error handler that was active when they were built: a failure of
  such a handler's function goes to the old one, and the routing table and the scopes,
  where built handlers are kept, are as they were. A handler built after the replacement
  hands its function's failure to the new error handler.
\<close>

theorem OnError_leaves_built_handlers_bound:
  assumes before: "h \<in> set (convertHandlerFuncs api relativePath fns w)"
    and fails: "Call (Fn h) ctx = Output v (Some (Failure e))"
    and after: "h' \<in> set (convertHandlerFuncs api relativePath' fns' (OnError api errorHandler w))"
    and fails': "Call (Fn h') ctx' = Output v' (Some (Failure e'))"
  shows "invoke h ctx = GetErrorHandler (Containers w (Container api)) ctx ctx (Failure e)
         \<and> invoke h' ctx' = errorHandler ctx' (Failure e')
         \<and> Routes (OnError api errorHandler w) = Routes w
         \<and> Parties (OnError api errorHandler w) = Parties w"
proof -
  have "ErrorHandlerOf h = GetErrorHandler (Containers w (Container api))"
    using before by (rule ErrorHandlerOf_convertHandlerFuncs)
  then have 1: "invoke h ctx = GetErrorHandler (Containers w (Container api)) ctx ctx (Failure e)"
    using fails by (simp add: invoke_def)
  have "ErrorHandlerOf h' = GetErrorHandler (Containers (OnError api errorHandler w) (Container api))"
    using after by (rule ErrorHandlerOf_convertHandlerFuncs)
  then have "ErrorHandlerOf h' = (\<lambda>ctx. errorHandler)"
    by (simp add: OnError_Containers_same)
  then have 2: "invoke h' ctx' = errorHandler ctx' (Failure e')"
    using fails' by (simp add: invoke_def)
  have 3: "Routes (OnError api errorHandler w) = Routes w"
    and 4: "Parties (OnError api errorHandler w) = Parties w"
    by (simp_all add: OnError_def)
  from 1 2 3 4 show ?thesis by simp
qed

theorem OnError_leaves_built_handlers_bound_witness:
  "map (\<lambda>h. invoke h ctx0) (convertHandlerFuncs api0 ''/a'' [broken] world0) =
     [\<lparr>Stopped = True, Response = [''500'']\<rparr>]
   \<and> map (\<lambda>h. invoke h ctx0) (convertHandlerFuncs api0 ''/b'' [broken] (OnError api0 logError world0)) =
     [\<lparr>Stopped = False, Response = [''logged'']\<rparr>]"
proof -
  let ?old = "\<lparr>Fn = broken, ParamsCount = 0, ErrorHandlerOf = (\<lambda>ctx. defaultErrorHandler),
                ResultHandlerOf = defaultResultHandler, AutoNext = True\<rparr>"
  let ?new = "\<lparr>Fn = broken, ParamsCount = 0, ErrorHandlerOf = (\<lambda>ctx. logError),
                ResultHandlerOf = defaultResultHandler, AutoNext = True\<rparr>"
  have o: "convertHandlerFuncs api0 ''/a'' [broken] world0 = [?old]"
    by (simp add: convertHandlerFuncs_map world0_def api0_def party0_def container0_def)
  have n: "convertHandlerFuncs api0 ''/b'' [broken] (OnError api0 logError world0) = [?new]"
    by (simp add: convertHandlerFuncs_map OnError_def world0_def api0_def party0_def container0_def)
  have b: "?old \<in> set (convertHandlerFuncs api0 ''/a'' [broken] world0)" by (simp add: o)
  have a: "?new \<in> set (convertHandlerFuncs api0 ''/b'' [broken] (OnError api0 logError world0))"
    by (simp add: n)
  have f: "Call (Fn ?old) ctx0 = Output None (Some (Failure ''boom''))"
    and f': "Call (Fn ?new) ctx0 = Output None (Some (Failure ''boom''))"
    by (simp_all add: broken_def)
  note t = OnError_leaves_built_handlers_bound [OF b f a f']
  have "invoke ?old ctx0 = GetErrorHandler (Containers world0 (Container api0)) ctx0 ctx0 (Failure ''boom'')"
    by (rule t [THEN conjunct1])
  then have 1: "invoke ?old ctx0 = \<lparr>Stopped = True, Response = [''500'']\<rparr>"
    by (simp add: world0_def container0_def defaultErrorHandler_def ctx0_def)
  have "invoke ?new ctx0 = logError ctx0 (Failure ''boom'')"
    by (rule t [THEN conjunct2, THEN conjunct1])
  then have 2: "invoke ?new ctx0 = \<lparr>Stopped = False, Response = [''logged'']\<rparr>"
    by (simp add: logError_def ctx0_def)
  show ?thesis
    unfolding o n using 1 2 by simp
qed

subsection \<open>Child scopes\<close>

text \<open>
  C3. \<^verbatim>\<open>Party\<close> yields a child whose dependency container is another one than the
  parent's and holds a copy of what the parent's container holds at that moment. A
  dependency registered afterwards on the parent reaches the parent's container and leaves
  the child's as it was, and the other way round.
\<close>

theorem Party_child_container_is_a_copy:
  assumes own: "DI (Parties w (Self api)) = Container api"
    and allocated: "Container api < NextContainer w"
  shows "Container (fst (Party api relativePath fns w)) \<noteq> Container api
   \<and> Containers (snd (Party api relativePath fns w)) (Container (fst (Party api relativePath fns w)))
       = Containers w (Container api)
   \<and> Containers (snd (Party api relativePath fns w)) (Container api) = Containers w (Container api)
   \<and> Containers (snd (RegisterDependency api d (snd (Party api relativePath fns w))))
         (Container (fst (Party api relativePath fns w)))
       = Containers (snd (Party api relativePath fns w)) (Container (fst (Party api relativePath fns w)))
   \<and> Containers (snd (RegisterDependency (fst (Party api relativePath fns w)) d
                        (snd (Party api relativePath fns w))))
         (Container api)
       = Containers (snd (Party api relativePath fns w)) (Container api)
   \<and> d \<in> set (Dependencies (Containers (snd (RegisterDependency api d (snd (Party api relativePath fns w))))
         (Container api)))
   \<and> d \<in> set (Dependencies (Containers (snd (RegisterDependency (fst (Party api relativePath fns w)) d
                        (snd (Party api relativePath fns w))))
         (Container (fst (Party api relativePath fns w)))))"
proof -
  obtain child w' where p: "Party api relativePath fns w = (child, w')" by (cases "Party api relativePath fns w")
  have c: "Container child = NextContainer w"
    using p by (auto simp: Party_def Party_Party_def Party_ConfigureContainer_def Let_def)
  have w': "Containers w' = (Containers w)(NextContainer w := Container_Clone (Containers w (Container api)))"
    using p own by (auto simp: Party_def Party_Party_def Party_ConfigureContainer_def Let_def)
  have clone: "Container_Clone (Containers w (Container api)) = Containers w (Container api)"
    by (simp add: Container_Clone_def)
  have ne: "Container child \<noteq> Container api" using c allocated by simp
  show ?thesis
    using ne by (simp add: p c w' clone RegisterDependency_def Container_Register_def)
qed

theorem Party_child_container_is_a_copy_witness:
  "DI (Parties world0 (Self api0)) = Container api0 \<and> Container api0 < NextContainer world0
   \<and> fst (Party api0 ''/v1'' [] world0) = \<lparr>Self = 1, Container = 1\<rparr>
   \<and> Dependencies (Containers (snd (RegisterDependency api0 dep1 (snd (Party api0 ''/v1'' [] world0)))) 0) = [dep1]
   \<and> Dependencies (Containers (snd (RegisterDependency api0 dep1 (snd (Party api0 ''/v1'' [] world0)))) 1) = []"
proof -
  have own: "DI (Parties world0 (Self api0)) = Container api0"
    by (simp add: world0_def api0_def party0_def)
  have allocated: "Container api0 < NextContainer world0"
    by (simp add: world0_def api0_def)
  show ?thesis
    using own allocated Party_child_container_is_a_copy [OF own allocated, of "''/v1''" "[]" dep1]
    by (simp add: Party_def Party_Party_def Party_ConfigureContainer_def convertHandlerFuncs_map
        RegisterDependency_def Container_Register_def Container_Clone_def
        world0_def api0_def party0_def container0_def Let_def)
qed

end
